theory Spec2Isabelle
  imports Main
begin

section \<open>JavaScript values that travel through the link\<close>

text \<open>
  The upload link of \<^verbatim>\<open>src/lib/index.js\<close> works on values that went through
  \<^verbatim>\<open>JSON.stringify\<close> and \<^verbatim>\<open>JSON.parse\<close>, so the value model is JSON. An object is the
  list of its own properties in the order JavaScript enumerates them; numbers are
  the integers that a JavaScript number holds exactly and prints in plain digits. A
  JavaScript expression that may be \<^verbatim>\<open>undefined\<close> has type \<open>json option\<close>, with
  \<open>None\<close> for \<^verbatim>\<open>undefined\<close>.
\<close>

datatype json =
    JNull
  | JBool bool
  | JNum int
  | JStr string
  | JArr "json list"
  | JObj "(string \<times> json) list"

text \<open>
  What the code can throw. \<open>Unmodelled\<close> is not a JavaScript error: it marks the
  JSON texts this development does not interpret (a number token with a fraction or
  an exponent, a Unicode escape beyond ASCII). \<^verbatim>\<open>JSON.stringify\<close> of a value of type
  \<open>json\<close> produces neither.
\<close>

datatype js_error = TypeError | SyntaxError | Unmodelled

subsection \<open>Numbers and strings\<close>

definition digit_char :: "nat \<Rightarrow> char" where
  "digit_char d = ''0123456789'' ! (d mod 10)"

fun show_nat :: "nat \<Rightarrow> string" where
  "show_nat n = (if n < 10 then [digit_char n] else show_nat (n div 10) @ [digit_char (n mod 10)])"

declare show_nat.simps [simp del]

definition show_int :: "int \<Rightarrow> string" where
  "show_int i = (if i < 0 then CHR ''-'' # show_nat (nat (- i)) else show_nat (nat i))"

fun join_with :: "string \<Rightarrow> string list \<Rightarrow> string" where
  "join_with sep [] = []"
| "join_with sep [p] = p"
| "join_with sep (p # q # ps) = p @ sep @ join_with sep (q # ps)"

text \<open>\<^verbatim>\<open>String.prototype.split\<close> with a separator of one character.\<close>

fun split_on :: "char \<Rightarrow> string \<Rightarrow> string list" where
  "split_on c [] = [[]]"
| "split_on c (x # xs) =
     (if x = c then [] # split_on c xs
      else (case split_on c xs of [] \<Rightarrow> [[x]] | p # ps \<Rightarrow> (x # p) # ps))"

text \<open>
  \<^verbatim>\<open>ToString\<close>: an array joins its elements with commas, \<^verbatim>\<open>null\<close> elements as the empty
  string; an object has no \<^verbatim>\<open>toString\<close> of its own.
\<close>

fun to_string :: "json \<Rightarrow> string" where
  "to_string JNull = ''null''"
| "to_string (JBool b) = (if b then ''true'' else ''false'')"
| "to_string (JNum n) = show_int n"
| "to_string (JStr s) = s"
| "to_string (JArr xs) =
     join_with '','' (map (\<lambda>x. if x = JNull then [] else to_string x) xs)"
| "to_string (JObj kvs) = ''[object Object]''"

definition to_string_opt :: "json option \<Rightarrow> string" where
  "to_string_opt v = (case v of None \<Rightarrow> ''undefined'' | Some x \<Rightarrow> to_string x)"

fun truthy :: "json option \<Rightarrow> bool" where
  "truthy None = False"
| "truthy (Some JNull) = False"
| "truthy (Some (JBool b)) = b"
| "truthy (Some (JNum n)) = (n \<noteq> 0)"
| "truthy (Some (JStr s)) = (s \<noteq> [])"
| "truthy (Some (JArr xs)) = True"
| "truthy (Some (JObj kvs)) = True"

text \<open>\<^verbatim>\<open>typeof v === 'number'\<close>\<close>

fun typeof_number :: "json option \<Rightarrow> bool" where
  "typeof_number (Some (JNum n)) = True"
| "typeof_number v = False"

subsection \<open>Properties\<close>

text \<open>
  The own enumerable properties of a value, as \<^verbatim>\<open>Object.keys\<close> of ECMAScript 2015
  lists them: those of an object, the indices of an array, the indices of a string
  (each a string of one character); a number or a boolean has none.
\<close>

fun own_entries :: "json \<Rightarrow> (string \<times> json) list" where
  "own_entries (JObj kvs) = kvs"
| "own_entries (JArr xs) = zip (map show_nat [0..<length xs]) xs"
| "own_entries (JStr s) = zip (map show_nat [0..<length s]) (map (\<lambda>c. JStr [c]) s)"
| "own_entries v = []"

text \<open>
  \<^verbatim>\<open>v[k]\<close> and \<^verbatim>\<open>v.k\<close> on a value that is neither \<^verbatim>\<open>null\<close> nor \<^verbatim>\<open>undefined\<close>, for the
  names the link reads (\<^verbatim>\<open>query\<close>, \<^verbatim>\<open>variables\<close>, \<^verbatim>\<open>operation\<close>, \<^verbatim>\<open>errors\<close>, \<^verbatim>\<open>data\<close>, and
  the keys \<^verbatim>\<open>Object.keys\<close> returned): no prototype has a property of these names, so
  the own properties decide.
\<close>

definition get_member :: "json \<Rightarrow> string \<Rightarrow> json option" where
  "get_member v k = map_of (own_entries v) k"

text \<open>
  The same on an expression that may be \<^verbatim>\<open>undefined\<close>, for the two places where the code
  reads a property of one after it has excluded \<^verbatim>\<open>undefined\<close> and \<^verbatim>\<open>null\<close>: the loop over
  the keys, entered only when \<^verbatim>\<open>Object.keys\<close> has returned a key, and
  \<^verbatim>\<open>error.result.errors\<close>, read only when \<^verbatim>\<open>error.result\<close> is truthy.
\<close>

definition get_member_opt :: "json option \<Rightarrow> string \<Rightarrow> json option" where
  "get_member_opt v k = (case v of None \<Rightarrow> None | Some x \<Rightarrow> get_member x k)"

text \<open>\<^verbatim>\<open>Object.keys(v)\<close>: a TypeError on \<^verbatim>\<open>undefined\<close> and on \<^verbatim>\<open>null\<close>.\<close>

definition object_keys :: "json option \<Rightarrow> js_error + string list" where
  "object_keys v =
     (case v of
        None \<Rightarrow> Inl TypeError
      | Some x \<Rightarrow> (if x = JNull then Inl TypeError else Inr (map fst (own_entries x))))"

subsection \<open>Case and regular expressions\<close>

definition lower_char :: "char \<Rightarrow> char" where
  "lower_char c =
     (let n = (of_char c :: nat) in if 65 \<le> n \<and> n \<le> 90 then char_of (n + 32) else c)"

text \<open>
  \<^verbatim>\<open>toLowerCase\<close>, used only in the comparison with \<^verbatim>\<open>'id'\<close>: only the ASCII capitals
  lower-case into ASCII letters.
\<close>

definition toLowerCase :: "string \<Rightarrow> string" where
  "toLowerCase s = map lower_char s"

text \<open>
  \<^verbatim>\<open>RegExp('\\$' + key, 'i')\<close> is the literal text \<^verbatim>\<open>$key\<close>, matched without regard to
  the case of ASCII letters, when \<open>key\<close> is ASCII and free of the syntax characters of
  regular expressions. For every other key the regular-expression engine of the
  JavaScript runtime is a parameter of the model: given the source of the pattern, the
  replacement text and the subject, it returns the result of
  \<^verbatim>\<open>subject.replace(RegExp(source, 'i'), replacement)\<close>, or \<open>None\<close> when the source
  is not a pattern and the \<^verbatim>\<open>RegExp\<close> constructor throws its \<^verbatim>\<open>SyntaxError\<close>.
\<close>

type_synonym regexp_engine = "string \<Rightarrow> string \<Rightarrow> string \<Rightarrow> string option"

definition syntax_character :: "char \<Rightarrow> bool" where
  "syntax_character c = (c \<in> set ''^$.*+?()[]{}|'' \<or> c = CHR 0x5C)"

definition literal_key :: "string \<Rightarrow> bool" where
  "literal_key k = (\<forall>c \<in> set k. (of_char c :: nat) < 128 \<and> \<not> syntax_character c)"

fun matches_here :: "string \<Rightarrow> string \<Rightarrow> bool" where
  "matches_here [] s = True"
| "matches_here (p # ps) [] = False"
| "matches_here (p # ps) (c # cs) = (lower_char p = lower_char c \<and> matches_here ps cs)"

text \<open>The leftmost match: the text before it, the matched text, the text after it.\<close>

fun regexp_exec :: "string \<Rightarrow> string \<Rightarrow> (string \<times> string \<times> string) option" where
  "regexp_exec pat [] = (if pat = [] then Some ([], [], []) else None)"
| "regexp_exec pat (c # cs) =
     (if matches_here pat (c # cs)
      then Some ([], take (length pat) (c # cs), drop (length pat) (c # cs))
      else (case regexp_exec pat cs of
              None \<Rightarrow> None
            | Some (left, matched, right) \<Rightarrow> Some (c # left, matched, right)))"

text \<open>
  \<^verbatim>\<open>GetSubstitution\<close> for a pattern without capture groups: in the replacement text
  \<^verbatim>\<open>$$\<close> is a dollar, \<^verbatim>\<open>$&\<close> the match, \<^verbatim>\<open>$`\<close> the text before it, \<^verbatim>\<open>$'\<close> the text
  after it, and every other dollar stands for itself.
\<close>

fun get_substitution :: "string \<Rightarrow> string \<Rightarrow> string \<Rightarrow> string \<Rightarrow> string" where
  "get_substitution matched left right [] = []"
| "get_substitution matched left right [c] = [c]"
| "get_substitution matched left right (c # d # r) =
     (if c \<noteq> CHR ''$'' then c # get_substitution matched left right (d # r)
      else if d = CHR ''$'' then CHR ''$'' # get_substitution matched left right r
      else if d = CHR ''&'' then matched @ get_substitution matched left right r
      else if d = CHR 0x60 then left @ get_substitution matched left right r
      else if d = CHR 0x27 then right @ get_substitution matched left right r
      else c # get_substitution matched left right (d # r))"

text \<open>\<^verbatim>\<open>text.replace(RegExp(pat, 'i'), replacement)\<close>: the first match only.\<close>

definition replace_first :: "string \<Rightarrow> string \<Rightarrow> string \<Rightarrow> string" where
  "replace_first pat replacement text =
     (case regexp_exec pat text of
        None \<Rightarrow> text
      | Some (left, matched, right) \<Rightarrow>
          left @ get_substitution matched left right replacement @ right)"

subsection \<open>Creating properties\<close>

definition is_digit :: "char \<Rightarrow> bool" where
  "is_digit c = (let n = (of_char c :: nat) in 48 \<le> n \<and> n \<le> 57)"

definition digit_value :: "char \<Rightarrow> nat" where
  "digit_value c = of_char c - 48"

definition decimal_value :: "string \<Rightarrow> nat" where
  "decimal_value s = foldl (\<lambda>a c. 10 * a + digit_value c) 0 s"

text \<open>
  An array index is a key that is the canonical decimal text of a number below
  \<open>2\<^sup>3\<^sup>2 - 1\<close>. JavaScript enumerates such keys first and in ascending order, then the
  other keys in the order of their creation.
\<close>

definition array_index :: "string \<Rightarrow> nat option" where
  "array_index s =
     (if s \<noteq> [] \<and> (\<forall>c \<in> set s. is_digit c)
      then (let n = decimal_value s
            in if show_nat n = s \<and> n < 4294967295 then Some n else None)
      else None)"

definition index_below :: "nat \<Rightarrow> string \<times> json \<Rightarrow> bool" where
  "index_below n kv = (case array_index (fst kv) of None \<Rightarrow> False | Some m \<Rightarrow> m < n)"

definition is_index :: "string \<times> json \<Rightarrow> bool" where
  "is_index kv = (array_index (fst kv) \<noteq> None)"

text \<open>
  \<^verbatim>\<open>obj[k] = v\<close> on a plain object: an existing property keeps its place and takes the
  value; a new one goes where the enumeration order puts it.
\<close>

definition put_prop :: "(string \<times> json) list \<Rightarrow> string \<Rightarrow> json \<Rightarrow> (string \<times> json) list" where
  "put_prop kvs k v =
     (if k \<in> set (map fst kvs) then map (\<lambda>kv. if fst kv = k then (k, v) else kv) kvs
      else (case array_index k of
              None \<Rightarrow> kvs @ [(k, v)]
            | Some n \<Rightarrow> takeWhile (index_below n) kvs @ [(k, v)] @ dropWhile (index_below n) kvs))"

section \<open>JSON text\<close>

subsection \<open>\<^verbatim>\<open>JSON.stringify\<close>\<close>

definition hex_char :: "nat \<Rightarrow> char" where
  "hex_char d = ''0123456789abcdef'' ! (d mod 16)"

definition escape_char :: "char \<Rightarrow> string" where
  "escape_char c =
     (let n = (of_char c :: nat)
      in if c = CHR 0x22 then [CHR 0x5C, CHR 0x22]
         else if c = CHR 0x5C then [CHR 0x5C, CHR 0x5C]
         else if n = 8 then [CHR 0x5C, CHR ''b'']
         else if n = 9 then [CHR 0x5C, CHR ''t'']
         else if n = 10 then [CHR 0x5C, CHR ''n'']
         else if n = 12 then [CHR 0x5C, CHR ''f'']
         else if n = 13 then [CHR 0x5C, CHR ''r'']
         else if n < 32 then [CHR 0x5C, CHR ''u'', CHR ''0'', CHR ''0'', hex_char (n div 16), hex_char n]
         else [c])"

definition quote :: "string \<Rightarrow> string" where
  "quote s = CHR 0x22 # concat (map escape_char s) @ [CHR 0x22]"

fun JSON_stringify :: "json \<Rightarrow> string" where
  "JSON_stringify JNull = ''null''"
| "JSON_stringify (JBool b) = (if b then ''true'' else ''false'')"
| "JSON_stringify (JNum n) = show_int n"
| "JSON_stringify (JStr s) = quote s"
| "JSON_stringify (JArr xs) = ''['' @ join_with '','' (map JSON_stringify xs) @ '']''"
| "JSON_stringify (JObj kvs) =
     ''{'' @ join_with '','' (map (\<lambda>kv. quote (fst kv) @ '':'' @ JSON_stringify (snd kv)) kvs) @ ''}''"

subsection \<open>\<^verbatim>\<open>JSON.parse\<close>: the tokens\<close>

datatype token =
    TLBrace | TRBrace | TLBrack | TRBrack | TColon | TComma
  | TString string | TNumber int | TTrue | TFalse | TNull

datatype lex_state =
    LStart
  | LStr string
  | LEsc string
  | LHex string "nat list"
  | LMinus
  | LZero
  | LInt bool nat
  | LWord string token

definition hex_value :: "char \<Rightarrow> nat option" where
  "hex_value c =
     (let n = (of_char c :: nat)
      in if 48 \<le> n \<and> n \<le> 57 then Some (n - 48)
         else if 97 \<le> n \<and> n \<le> 102 then Some (n - 87)
         else if 65 \<le> n \<and> n \<le> 70 then Some (n - 55)
         else None)"

definition lex_start :: "char \<Rightarrow> js_error + (token list \<times> lex_state)" where
  "lex_start c =
     (if c \<in> set [CHR '' '', CHR 0x09, CHR 0x0A, CHR 0x0D] then Inr ([], LStart)
      else if c = CHR ''{'' then Inr ([TLBrace], LStart)
      else if c = CHR ''}'' then Inr ([TRBrace], LStart)
      else if c = CHR ''['' then Inr ([TLBrack], LStart)
      else if c = CHR '']'' then Inr ([TRBrack], LStart)
      else if c = CHR '':'' then Inr ([TColon], LStart)
      else if c = CHR '','' then Inr ([TComma], LStart)
      else if c = CHR 0x22 then Inr ([], LStr [])
      else if c = CHR ''-'' then Inr ([], LMinus)
      else if c = CHR ''0'' then Inr ([], LZero)
      else if is_digit c then Inr ([], LInt False (digit_value c))
      else if c = CHR ''t'' then Inr ([], LWord ''rue'' TTrue)
      else if c = CHR ''f'' then Inr ([], LWord ''alse'' TFalse)
      else if c = CHR ''n'' then Inr ([], LWord ''ull'' TNull)
      else Inl SyntaxError)"

definition number_token :: "bool \<Rightarrow> nat \<Rightarrow> token" where
  "number_token neg n = TNumber (if neg then - int n else int n)"

definition after_number :: "token \<Rightarrow> char \<Rightarrow> js_error + (token list \<times> lex_state)" where
  "after_number t c =
     (if c \<in> set ''.eE'' then Inl Unmodelled
      else (case lex_start c of
              Inl e \<Rightarrow> Inl e
            | Inr (ts, st) \<Rightarrow> Inr (t # ts, st)))"

fun lex_step :: "lex_state \<Rightarrow> char \<Rightarrow> js_error + (token list \<times> lex_state)" where
  "lex_step LStart c = lex_start c"
| "lex_step (LStr acc) c =
     (if c = CHR 0x22 then Inr ([TString acc], LStart)
      else if c = CHR 0x5C then Inr ([], LEsc acc)
      else if (of_char c :: nat) < 32 then Inl SyntaxError
      else Inr ([], LStr (acc @ [c])))"
| "lex_step (LEsc acc) c =
     (if c = CHR 0x22 \<or> c = CHR 0x5C \<or> c = CHR ''/'' then Inr ([], LStr (acc @ [c]))
      else if c = CHR ''b'' then Inr ([], LStr (acc @ [CHR 0x08]))
      else if c = CHR ''f'' then Inr ([], LStr (acc @ [CHR 0x0C]))
      else if c = CHR ''n'' then Inr ([], LStr (acc @ [CHR 0x0A]))
      else if c = CHR ''r'' then Inr ([], LStr (acc @ [CHR 0x0D]))
      else if c = CHR ''t'' then Inr ([], LStr (acc @ [CHR 0x09]))
      else if c = CHR ''u'' then Inr ([], LHex acc [])
      else Inl SyntaxError)"
| "lex_step (LHex acc ds) c =
     (case hex_value c of
        None \<Rightarrow> Inl SyntaxError
      | Some h \<Rightarrow>
          (if length ds < 3 then Inr ([], LHex acc (ds @ [h]))
           else (let n = foldl (\<lambda>a d. 16 * a + d) 0 (ds @ [h])
                 in if n < 128 then Inr ([], LStr (acc @ [char_of n])) else Inl Unmodelled)))"
| "lex_step LMinus c =
     (if c = CHR ''0'' then Inr ([], LZero)
      else if is_digit c then Inr ([], LInt True (digit_value c))
      else Inl SyntaxError)"
| "lex_step LZero c =
     (if is_digit c then Inl SyntaxError else after_number (TNumber 0) c)"
| "lex_step (LInt neg n) c =
     (if is_digit c then Inr ([], LInt neg (10 * n + digit_value c))
      else after_number (number_token neg n) c)"
| "lex_step (LWord [] t) c = Inl SyntaxError"
| "lex_step (LWord (e # es) t) c =
     (if c \<noteq> e then Inl SyntaxError
      else if es = [] then Inr ([t], LStart)
      else Inr ([], LWord es t))"

fun lex_finish :: "lex_state \<Rightarrow> js_error + token list" where
  "lex_finish LStart = Inr []"
| "lex_finish LZero = Inr [TNumber 0]"
| "lex_finish (LInt neg n) = Inr [number_token neg n]"
| "lex_finish st = Inl SyntaxError"

text \<open>One character at a time, the tokens so far in \<open>acc\<close>; the first error ends the scan.\<close>

fun lex :: "lex_state \<Rightarrow> token list \<Rightarrow> string \<Rightarrow> js_error + token list"
  and lex_next :: "js_error + (token list \<times> lex_state) \<Rightarrow> token list \<Rightarrow> string \<Rightarrow> js_error + token list"
where
  "lex st acc [] = (case lex_finish st of Inl e \<Rightarrow> Inl e | Inr ts \<Rightarrow> Inr (acc @ ts))"
| "lex st acc (c # cs) = lex_next (lex_step st c) acc cs"
| "lex_next (Inl e) acc cs = Inl e"
| "lex_next (Inr (ts, st)) acc cs = lex st (acc @ ts) cs"

subsection \<open>\<^verbatim>\<open>JSON.parse\<close>: the grammar\<close>

text \<open>
  The open containers, innermost first: an array with its elements so far, an object
  with its properties so far, an object that has read a key and waits for its value.
\<close>

datatype frame =
    FArr "json list"
  | FObj "(string \<times> json) list"
  | FKey "(string \<times> json) list" string

datatype mode =
    MValue
  | MValueOrEnd
  | MKeyOrEnd
  | MKey
  | MColon
  | MAfter
  | MDone json

fun deliver :: "json \<Rightarrow> frame list \<Rightarrow> js_error + (mode \<times> frame list)" where
  "deliver v [] = Inr (MDone v, [])"
| "deliver v (FArr xs # st) = Inr (MAfter, FArr (xs @ [v]) # st)"
| "deliver v (FKey kvs k # st) = Inr (MAfter, FObj (put_prop kvs k v) # st)"
| "deliver v (FObj kvs # st) = Inl SyntaxError"

fun want_value :: "bool \<Rightarrow> frame list \<Rightarrow> token \<Rightarrow> js_error + (mode \<times> frame list)" where
  "want_value may_end st TLBrack = Inr (MValueOrEnd, FArr [] # st)"
| "want_value may_end st TLBrace = Inr (MKeyOrEnd, FObj [] # st)"
| "want_value may_end st (TString s) = deliver (JStr s) st"
| "want_value may_end st (TNumber n) = deliver (JNum n) st"
| "want_value may_end st TTrue = deliver (JBool True) st"
| "want_value may_end st TFalse = deliver (JBool False) st"
| "want_value may_end st TNull = deliver JNull st"
| "want_value may_end (FArr xs # st) TRBrack =
     (if may_end then deliver (JArr xs) st else Inl SyntaxError)"
| "want_value may_end st t = Inl SyntaxError"

fun want_key :: "bool \<Rightarrow> frame list \<Rightarrow> token \<Rightarrow> js_error + (mode \<times> frame list)" where
  "want_key may_end (FObj kvs # st) (TString k) = Inr (MColon, FKey kvs k # st)"
| "want_key may_end (FObj kvs # st) TRBrace =
     (if may_end then deliver (JObj kvs) st else Inl SyntaxError)"
| "want_key may_end st t = Inl SyntaxError"

fun after_value :: "frame list \<Rightarrow> token \<Rightarrow> js_error + (mode \<times> frame list)" where
  "after_value (FArr xs # st) TComma = Inr (MValue, FArr xs # st)"
| "after_value (FObj kvs # st) TComma = Inr (MKey, FObj kvs # st)"
| "after_value (FArr xs # st) TRBrack = deliver (JArr xs) st"
| "after_value (FObj kvs # st) TRBrace = deliver (JObj kvs) st"
| "after_value st t = Inl SyntaxError"

fun parse_step :: "mode \<Rightarrow> frame list \<Rightarrow> token \<Rightarrow> js_error + (mode \<times> frame list)" where
  "parse_step MValue st t = want_value False st t"
| "parse_step MValueOrEnd st t = want_value True st t"
| "parse_step MKeyOrEnd st t = want_key True st t"
| "parse_step MKey st t = want_key False st t"
| "parse_step MColon st t = (if t = TColon then Inr (MValue, st) else Inl SyntaxError)"
| "parse_step MAfter st t = after_value st t"
| "parse_step (MDone v) st t = Inl SyntaxError"

fun parse_tokens :: "mode \<Rightarrow> frame list \<Rightarrow> token list \<Rightarrow> js_error + json"
  and parse_next :: "js_error + (mode \<times> frame list) \<Rightarrow> token list \<Rightarrow> js_error + json"
where
  "parse_tokens m st [] = (case m of MDone v \<Rightarrow> Inr v | _ \<Rightarrow> Inl SyntaxError)"
| "parse_tokens m st (t # ts) = parse_next (parse_step m st t) ts"
| "parse_next (Inl e) ts = Inl e"
| "parse_next (Inr (m, st)) ts = parse_tokens m st ts"

definition JSON_parse :: "string \<Rightarrow> js_error + json" where
  "JSON_parse text =
     (case lex LStart [] text of
        Inl e \<Rightarrow> Inl e
      | Inr ts \<Rightarrow> parse_tokens MValue [] ts)"

section \<open>The query rewriter\<close>

text \<open>
  Lines 156 to 178 of \<^verbatim>\<open>src/lib/index.js\<close>. The body the rewriter builds is an object
  literal of three properties; \<^verbatim>\<open>body.operation\<close> may be \<^verbatim>\<open>undefined\<close>.
\<close>

record rewritten_body =
  operationName :: "json option"
  query :: string
  variables :: json

text \<open>
  \<^verbatim>\<open>body.query.split('{').splice(1).join('{').split('}').slice(0,-1).join('}')\<close>:
  \<^verbatim>\<open>splice(1)\<close> returns all parts but the first, \<^verbatim>\<open>slice(0,-1)\<close> all but the last.
\<close>

definition selection_set :: "string \<Rightarrow> string" where
  "selection_set q =
     join_with ''}'' (butlast (split_on CHR ''}'' (join_with ''{'' (tl (split_on CHR ''{'' q)))))"

text \<open>
  One turn of the loop over the keys. The source computes \<^verbatim>\<open>val\<close>, the quoted form,
  and then passes \<^verbatim>\<open>body.variables[keys[i]]\<close> to \<^verbatim>\<open>replace\<close>, which converts it to a
  string; \<open>val\<close> is bound here as it is there. A key that is not literal goes to the
  runtime's engine, with the source \<^verbatim>\<open>\$\<close> followed by the key; the turn throws
  only when the \<^verbatim>\<open>RegExp\<close> constructor does.
\<close>

definition substitute ::
  "regexp_engine \<Rightarrow> json option \<Rightarrow> string \<Rightarrow> string \<Rightarrow> js_error + string" where
  "substitute regexp_replace vars rawQuery key =
     (let v = get_member_opt vars key;
          val = (if toLowerCase key = ''id'' \<or> typeof_number v then v
                 else Some (JStr ([CHR 0x27] @ to_string_opt v @ [CHR 0x27])))
      in if literal_key key
         then Inr (replace_first (CHR ''$'' # key) (to_string_opt v) rawQuery)
         else (case regexp_replace ([CHR 0x5C, CHR ''$''] @ key) (to_string_opt v) rawQuery of
                 None \<Rightarrow> Inl SyntaxError
               | Some replaced \<Rightarrow> Inr replaced))"

fun substitute_all ::
    "regexp_engine \<Rightarrow> json option \<Rightarrow> string list \<Rightarrow> string \<Rightarrow> js_error + string"
  and substitute_next ::
    "regexp_engine \<Rightarrow> json option \<Rightarrow> string list \<Rightarrow> js_error + string \<Rightarrow> js_error + string"
where
  "substitute_all regexp_replace vars [] rawQuery = Inr rawQuery"
| "substitute_all regexp_replace vars (key # keys) rawQuery =
     substitute_next regexp_replace vars keys (substitute regexp_replace vars rawQuery key)"
| "substitute_next regexp_replace vars keys (Inl e) = Inl e"
| "substitute_next regexp_replace vars keys (Inr rawQuery) =
     substitute_all regexp_replace vars keys rawQuery"

text \<open>
  The branch taken when \<^verbatim>\<open>body.query\<close> is truthy. A truthy query that is not a string
  has no \<^verbatim>\<open>split\<close> method to call; \<^verbatim>\<open>Object.keys\<close> throws on \<^verbatim>\<open>undefined\<close> and
  on \<^verbatim>\<open>null\<close>.
\<close>

definition rewrite_query :: "regexp_engine \<Rightarrow> json \<Rightarrow> js_error + rewritten_body" where
  "rewrite_query regexp_replace body =
     (case get_member body ''query'' of
        Some (JStr q) \<Rightarrow>
          (case object_keys (get_member body ''variables'') of
             Inl e \<Rightarrow> Inl e
           | Inr keys \<Rightarrow>
               (case substitute_all regexp_replace (get_member body ''variables'') keys (selection_set q) of
                  Inl e \<Rightarrow> Inl e
                | Inr rawQuery \<Rightarrow>
                    Inr \<lparr>operationName = get_member body ''operation'',
                         query = '' query { '' @ filter (\<lambda>c. c \<noteq> CHR 0x0A) rawQuery @ '' } '',
                         variables = JNull\<rparr>))
      | _ \<Rightarrow> Inl TypeError)"

text \<open>\<^verbatim>\<open>JSON.stringify\<close> leaves out a property whose value is \<^verbatim>\<open>undefined\<close>.\<close>

definition rewritten_json :: "rewritten_body \<Rightarrow> json" where
  "rewritten_json b =
     JObj ((case operationName b of None \<Rightarrow> [] | Some v \<Rightarrow> [(''operationName'', v)])
           @ [(''query'', JStr (query b)), (''variables'', variables b)])"

section \<open>The request body\<close>

text \<open>
  A file as \<^verbatim>\<open>extractFiles\<close> returns it, with the path of the place it was taken from.
  The content is opaque; \<^verbatim>\<open>file.name\<close> may be \<^verbatim>\<open>undefined\<close>.
\<close>

record 'b upload =
  upload_name :: "string option"
  upload_content :: 'b

record 'b extracted_file =
  path :: string
  fileHandle :: "'b upload"

text \<open>
  \<^verbatim>\<open>FormData\<close>: the entries in the order of the \<^verbatim>\<open>append\<close> calls, a text field or a
  file with the file name passed as third argument. A field name is a string, so the
  numeric index is converted.
\<close>

datatype 'b form_entry =
    Field string string
  | FileField string "'b upload" "string option"

datatype 'b request_body =
    Text string
  | FormData "'b form_entry list"

record 'b fetch_options =
  opt_headers :: "(string \<times> string) list"
  opt_body :: "'b request_body option"
  opt_signal :: bool

text \<open>
  \<^verbatim>\<open>serializeFetchParameter(body, 'Payload')\<close> of \<^verbatim>\<open>apollo-link-http-common\<close> is
  \<^verbatim>\<open>JSON.stringify\<close>; it throws only on what JSON cannot represent, which \<open>json\<close>
  does not contain.
\<close>

definition serializeFetchParameter :: "json \<Rightarrow> string" where
  "serializeFetchParameter body = JSON_stringify body"

text \<open>The \<^verbatim>\<open>reduce\<close> of lines 138 to 141, from the empty object.\<close>

definition files_map :: "'b extracted_file list \<Rightarrow> (string \<times> json) list" where
  "files_map files =
     foldl (\<lambda>m (index, f). put_prop m (show_nat index) (JArr [JStr (path f)]))
       [] (zip [0..<length files] files)"

text \<open>The \<^verbatim>\<open>forEach\<close> of lines 144 to 146.\<close>

definition append_files :: "'b extracted_file list \<Rightarrow> 'b form_entry list \<Rightarrow> 'b form_entry list" where
  "append_files files form =
     foldl (\<lambda>fd (index, f). fd @ [FileField (show_nat index) (fileHandle f) (upload_name (fileHandle f))])
       form (zip [0..<length files] files)"

text \<open>Lines 127 to 147: the body of the request, multipart when there are files.\<close>

definition set_body :: "'b extracted_file list \<Rightarrow> string \<Rightarrow> 'b fetch_options \<Rightarrow> 'b fetch_options" where
  "set_body files payload options =
     (if length files \<noteq> 0
      then options
             \<lparr>opt_headers := filter (\<lambda>h. fst h \<noteq> ''content-type'') (opt_headers options),
              opt_body := Some (FormData
                (append_files files
                   ([] @ [Field ''operations'' payload]
                       @ [Field ''map'' (JSON_stringify (JObj (files_map files)))])))\<rparr>
      else options\<lparr>opt_body := Some (Text payload)\<rparr>)"

section \<open>The transport\<close>

text \<open>
  What a rejected promise carries: an object, of which the handler reads the
  properties \<^verbatim>\<open>name\<close> and \<^verbatim>\<open>result\<close>. The observer's callbacks are taken to return
  without throwing.
\<close>

record error =
  error_name :: "json option"
  error_result :: "json option"

datatype 'r fetch_result = Resolved 'r | Rejected error

text \<open>
  What one execution does, in the order it does it: the payload serializer, the
  multipart encoder, \<^verbatim>\<open>JSON.parse\<close> of the request body, the entry into the rewriting
  branch, \<^verbatim>\<open>JSON.stringify\<close> of the rewritten body, the call of \<^verbatim>\<open>fetch\<close> with its
  arguments, \<^verbatim>\<open>operation.setContext({ response })\<close>, the response parser, and the three
  calls on the observer.
\<close>

datatype ('b, 'r) effect =
    Serialize
  | Multipart
  | ParseBody
  | Rewrite
  | Stringify
  | Fetch string "'b fetch_options"
  | SetContext 'r
  | ParseResponse 'r
  | Next json
  | Error error
  | Complete

text \<open>
  The outcome of a run: the exception that left the subscriber function, if any; the
  \<^verbatim>\<open>response\<close> entry of the operation's context; the effects.
\<close>

record ('b, 'r) run =
  raised :: "js_error option"
  context_response :: "'r option"
  trace :: "('b, 'r) effect list"

definition preceded_by :: "('b, 'r) effect list \<Rightarrow> ('b, 'r) run \<Rightarrow> ('b, 'r) run" where
  "preceded_by effects r = r\<lparr>trace := effects @ trace r\<rparr>"

text \<open>The \<^verbatim>\<open>catch\<close> handler, lines 191 to 201.\<close>

definition on_rejected :: "error \<Rightarrow> ('b, 'r) effect list" where
  "on_rejected error =
     (if error_name error = Some (JStr ''AbortError'') then []
      else (if truthy (error_result error)
               \<and> truthy (get_member_opt (error_result error) ''errors'')
               \<and> truthy (get_member_opt (error_result error) ''data'')
            then (case error_result error of None \<Rightarrow> [] | Some result \<Rightarrow> [Next result])
            else [])
           @ [Error error])"

text \<open>
  The promise chain of lines 180 to 201, from the settled \<^verbatim>\<open>fetch\<close>. The response
  parser \<^verbatim>\<open>parseAndCheckHttpResponse(operation)\<close> holds the operation, so it is given
  the context as it is when it is called.
\<close>

definition settle ::
  "('r option \<Rightarrow> 'r \<Rightarrow> error + json) \<Rightarrow> 'r fetch_result \<Rightarrow> 'r option \<Rightarrow> ('b, 'r) run" where
  "settle parser outcome context =
     (case outcome of
        Rejected error \<Rightarrow>
          \<lparr>raised = None, context_response = context, trace = on_rejected error\<rparr>
      | Resolved response \<Rightarrow>
          (let context' = Some response
           in preceded_by [SetContext response, ParseResponse response]
                (case parser context' response of
                   Inl error \<Rightarrow>
                     \<lparr>raised = None, context_response = context', trace = on_rejected error\<rparr>
                 | Inr result \<Rightarrow>
                     \<lparr>raised = None, context_response = context', trace = [Next result, Complete]\<rparr>)))"

definition transport ::
  "(string \<Rightarrow> 'b fetch_options \<Rightarrow> 'r fetch_result) \<Rightarrow> ('r option \<Rightarrow> 'r \<Rightarrow> error + json)
     \<Rightarrow> string \<Rightarrow> 'b fetch_options \<Rightarrow> 'r option \<Rightarrow> ('b, 'r) run" where
  "transport linkFetch parser uri options context =
     preceded_by [Fetch uri options] (settle parser (linkFetch uri options) context)"

text \<open>
  The argument of \<^verbatim>\<open>JSON.parse\<close> is converted to a string: a \<^verbatim>\<open>FormData\<close> has no
  \<^verbatim>\<open>toString\<close> of its own.
\<close>

definition body_text :: "'b request_body option \<Rightarrow> string" where
  "body_text b =
     (case b of
        None \<Rightarrow> ''undefined''
      | Some (Text t) \<Rightarrow> t
      | Some (FormData entries) \<Rightarrow> ''[object FormData]'')"

definition throw :: "js_error \<Rightarrow> 'r option \<Rightarrow> ('b, 'r) run" where
  "throw e context = \<lparr>raised = Some e, context_response = context, trace = []\<rparr>"

text \<open>
  The subscriber function, lines 150 to 201. \<open>abortable\<close> says whether
  \<^verbatim>\<open>createSignalIfSupported\<close> returned a controller. Reading \<^verbatim>\<open>body.query\<close> throws when
  the parsed body is \<^verbatim>\<open>null\<close>.
\<close>

definition subscribe ::
  "regexp_engine \<Rightarrow> (string \<Rightarrow> 'b fetch_options \<Rightarrow> 'r fetch_result)
     \<Rightarrow> ('r option \<Rightarrow> 'r \<Rightarrow> error + json)
     \<Rightarrow> bool \<Rightarrow> string \<Rightarrow> 'b fetch_options \<Rightarrow> 'r option \<Rightarrow> ('b, 'r) run" where
  "subscribe regexp_replace linkFetch parser abortable uri options0 context =
     (let options = (if abortable then options0\<lparr>opt_signal := True\<rparr> else options0)
      in preceded_by [ParseBody]
           (case JSON_parse (body_text (opt_body options)) of
              Inl e \<Rightarrow> throw e context
            | Inr body \<Rightarrow>
                (if body = JNull then throw TypeError context
                 else if truthy (get_member body ''query'')
                 then preceded_by [Rewrite]
                        (case rewrite_query regexp_replace body of
                           Inl e \<Rightarrow> throw e context
                         | Inr rewritten \<Rightarrow>
                             preceded_by [Stringify]
                               (transport linkFetch parser uri
                                  (options\<lparr>opt_body :=
                                     Some (Text (JSON_stringify (rewritten_json rewritten)))\<rparr>)
                                  context))
                 else transport linkFetch parser uri options context)))"

text \<open>
  The link's request handler followed by a subscription: \<open>options\<close> and \<open>body\<close> are
  what \<^verbatim>\<open>selectHttpOptionsAndBody\<close> returned, \<open>files\<close> what \<^verbatim>\<open>extractFiles\<close> took
  out of \<open>body\<close>, leaving \<^verbatim>\<open>null\<close> in their places.
\<close>

definition execute ::
  "regexp_engine \<Rightarrow> (string \<Rightarrow> 'b fetch_options \<Rightarrow> 'r fetch_result)
     \<Rightarrow> ('r option \<Rightarrow> 'r \<Rightarrow> error + json)
     \<Rightarrow> bool \<Rightarrow> string \<Rightarrow> 'b fetch_options \<Rightarrow> json \<Rightarrow> 'b extracted_file list
     \<Rightarrow> 'r option \<Rightarrow> ('b, 'r) run" where
  "execute regexp_replace linkFetch parser abortable uri options body files context =
     (let payload = serializeFetchParameter body
      in preceded_by (Serialize # (if length files \<noteq> 0 then [Multipart] else []))
           (subscribe regexp_replace linkFetch parser abortable uri (set_body files payload options) context))"

text \<open>The \<^verbatim>\<open>response\<close> entry of the context after a sequence of effects.\<close>

fun context_after :: "('b, 'r) effect list \<Rightarrow> 'r option \<Rightarrow> 'r option" where
  "context_after [] context = context"
| "context_after (SetContext response # effects) context = context_after effects (Some response)"
| "context_after (e # effects) context = context_after effects context"

section \<open>The handlers of the promise chain\<close>

lemma truthy_member_truthy: "truthy (get_member v k) \<Longrightarrow> truthy (Some v)"
  by (cases v) (auto simp: get_member_def)

lemma on_rejected_abort:
  "error_name err = Some (JStr ''AbortError'') \<Longrightarrow> on_rejected err = []"
  by (simp add: on_rejected_def)

lemma on_rejected_partial:
  assumes "error_name err \<noteq> Some (JStr ''AbortError'')"
    and "error_result err = Some result"
    and "truthy (get_member result ''errors'')"
    and "truthy (get_member result ''data'')"
  shows "on_rejected err = [Next result, Error err]"
  using assms truthy_member_truthy [of result "''data''"]
  by (simp add: on_rejected_def get_member_opt_def)

lemma on_rejected_plain:
  assumes "error_name err \<noteq> Some (JStr ''AbortError'')"
    and "error_result err = None"
  shows "on_rejected err = [Error err]"
  using assms by (simp add: on_rejected_def)

text \<open>The context of a run is the context its effects leave.\<close>

lemma settle_context:
  "context_response (settle parser outcome context :: ('b, 'r) run)
     = context_after (trace (settle parser outcome context :: ('b, 'r) run)) context"
proof (cases outcome)
  case (Resolved response)
  have tail: "context_after (on_rejected err :: ('b, 'r) effect list) c = c" for err c
    by (simp add: on_rejected_def split: option.splits)
  show ?thesis
    using Resolved by (simp add: settle_def preceded_by_def Let_def tail split: sum.splits)
next
  case (Rejected err)
  then show ?thesis
    by (simp add: settle_def on_rejected_def split: option.splits)
qed

text \<open>
  C5, as the code has it. When the rejection is not an abort and its \<^verbatim>\<open>result\<close> has
  truthy \<^verbatim>\<open>errors\<close> and truthy \<^verbatim>\<open>data\<close> (the guard of line 196), the observer gets
  exactly one \<^verbatim>\<open>next\<close> with that result and then exactly one \<^verbatim>\<open>error\<close> with the
  rejection: when \<^verbatim>\<open>fetch\<close> itself rejects, and when the response parser rejects after
  the response was put on the context.
\<close>

theorem partial_result_then_error:
  assumes "error_name err \<noteq> Some (JStr ''AbortError'')"
    and "error_result err = Some result"
    and "truthy (get_member result ''errors'')"
    and "truthy (get_member result ''data'')"
  shows "trace (settle parser (Rejected err) context :: ('b, 'r) run) = [Next result, Error err]
       \<and> (parser (Some response) response = Inl err \<longrightarrow>
            trace (settle parser (Resolved response) context :: ('b, 'r) run)
              = [SetContext response, ParseResponse response, Next result, Error err])"
  by (simp add: settle_def preceded_by_def on_rejected_partial [OF assms])

theorem partial_result_then_error_witness:
  "trace (settle (\<lambda>c (r :: nat). Inl \<lparr>error_name = Some (JStr ''ServerError''),
             error_result = Some (JObj [(''errors'', JArr [JStr ''denied'']), (''data'', JObj [(''user'', JNull)])])\<rparr>)
           (Rejected \<lparr>error_name = Some (JStr ''ServerError''),
             error_result = Some (JObj [(''errors'', JArr [JStr ''denied'']), (''data'', JObj [(''user'', JNull)])])\<rparr>)
           None :: (unit, nat) run)
     = [Next (JObj [(''errors'', JArr [JStr ''denied'']), (''data'', JObj [(''user'', JNull)])]),
        Error \<lparr>error_name = Some (JStr ''ServerError''),
             error_result = Some (JObj [(''errors'', JArr [JStr ''denied'']), (''data'', JObj [(''user'', JNull)])])\<rparr>]
   \<and> trace (settle (\<lambda>c (r :: nat). Inl \<lparr>error_name = Some (JStr ''ServerError''),
             error_result = Some (JObj [(''errors'', JArr [JStr ''denied'']), (''data'', JObj [(''user'', JNull)])])\<rparr>)
           (Resolved 500) None :: (unit, nat) run)
     = [SetContext 500, ParseResponse 500,
        Next (JObj [(''errors'', JArr [JStr ''denied'']), (''data'', JObj [(''user'', JNull)])]),
        Error \<lparr>error_name = Some (JStr ''ServerError''),
             error_result = Some (JObj [(''errors'', JArr [JStr ''denied'']), (''data'', JObj [(''user'', JNull)])])\<rparr>]"
  using partial_result_then_error
    [of "\<lparr>error_name = Some (JStr ''ServerError''),
          error_result = Some (JObj [(''errors'', JArr [JStr ''denied'']), (''data'', JObj [(''user'', JNull)])])\<rparr>"
        "JObj [(''errors'', JArr [JStr ''denied'']), (''data'', JObj [(''user'', JNull)])]"
        "\<lambda>c (r :: nat). Inl \<lparr>error_name = Some (JStr ''ServerError''),
          error_result = Some (JObj [(''errors'', JArr [JStr ''denied'']), (''data'', JObj [(''user'', JNull)])])\<rparr>"
        None 500]
  by (simp add: get_member_def)

text \<open>
  C5, as the specification states it, fails: a result that contains both \<^verbatim>\<open>errors\<close> and
  \<^verbatim>\<open>data\<close>, with \<^verbatim>\<open>data\<close> null, is not forwarded. The observer gets the \<^verbatim>\<open>error\<close> and no
  \<^verbatim>\<open>next\<close>.
\<close>

theorem null_data_not_forwarded:
  "get_member (JObj [(''errors'', JArr [JObj [(''message'', JStr ''denied'')]]), (''data'', JNull)]) ''errors''
     = Some (JArr [JObj [(''message'', JStr ''denied'')]])
   \<and> get_member (JObj [(''errors'', JArr [JObj [(''message'', JStr ''denied'')]]), (''data'', JNull)]) ''data''
     = Some JNull
   \<and> trace (settle (\<lambda>c (r :: nat). Inr JNull)
        (Rejected \<lparr>error_name = Some (JStr ''ServerError''), error_result = Some (JObj [(''errors'', JArr [JObj [(''message'', JStr ''denied'')]]), (''data'', JNull)])\<rparr>)
        None :: (unit, nat) run)
     = [Error \<lparr>error_name = Some (JStr ''ServerError''), error_result = Some (JObj [(''errors'', JArr [JObj [(''message'', JStr ''denied'')]]), (''data'', JNull)])\<rparr>]
   \<and> trace (settle
        (\<lambda>c (r :: nat). Inl \<lparr>error_name = Some (JStr ''ServerError''), error_result = Some (JObj [(''errors'', JArr [JObj [(''message'', JStr ''denied'')]]), (''data'', JNull)])\<rparr>)
        (Resolved 500) None :: (unit, nat) run)
     = [SetContext 500, ParseResponse 500,
        Error \<lparr>error_name = Some (JStr ''ServerError''), error_result = Some (JObj [(''errors'', JArr [JObj [(''message'', JStr ''denied'')]]), (''data'', JNull)])\<rparr>]"
  by (simp add: settle_def on_rejected_def get_member_def get_member_opt_def preceded_by_def)

text \<open>
  C6. When the rejection is an error named \<^verbatim>\<open>AbortError\<close>, the observer gets nothing, no
  \<^verbatim>\<open>next\<close>, no \<^verbatim>\<open>error\<close>, no \<^verbatim>\<open>complete\<close>: when \<^verbatim>\<open>fetch\<close> rejects, the run ends with
  the call of \<^verbatim>\<open>fetch\<close> and the context is untouched; when the abort comes while the
  response is read, the run ends with the call of the response parser.
\<close>

theorem abort_is_swallowed:
  assumes "error_name err = Some (JStr ''AbortError'')"
  shows "(linkFetch uri options = Rejected err \<longrightarrow>
            transport linkFetch parser uri options context
              = \<lparr>raised = None, context_response = context, trace = [Fetch uri options]\<rparr>)
       \<and> (linkFetch uri options = Resolved response \<and> parser (Some response) response = Inl err \<longrightarrow>
            transport linkFetch parser uri options context
              = \<lparr>raised = None, context_response = Some response,
                 trace = [Fetch uri options, SetContext response, ParseResponse response]\<rparr>)"
  using assms by (simp add: transport_def settle_def preceded_by_def on_rejected_abort)

theorem abort_is_swallowed_witness:
  "transport (\<lambda>u opt. Rejected \<lparr>error_name = Some (JStr ''AbortError''), error_result = None\<rparr>)
      (\<lambda>c (r :: nat). Inr JNull) ''/graphql''
      \<lparr>opt_headers = [], opt_body = Some (Text ''{}'' :: unit request_body), opt_signal = True\<rparr> None
     = \<lparr>raised = None, context_response = None,
        trace = [Fetch ''/graphql'' \<lparr>opt_headers = [], opt_body = Some (Text ''{}''), opt_signal = True\<rparr>]\<rparr>
   \<and> transport (\<lambda>u opt. Resolved (200 :: nat))
      (\<lambda>c r. Inl \<lparr>error_name = Some (JStr ''AbortError''), error_result = None\<rparr>) ''/graphql''
      \<lparr>opt_headers = [], opt_body = Some (Text ''{}'' :: unit request_body), opt_signal = True\<rparr> None
     = \<lparr>raised = None, context_response = Some 200,
        trace = [Fetch ''/graphql'' \<lparr>opt_headers = [], opt_body = Some (Text ''{}''), opt_signal = True\<rparr>,
                 SetContext 200, ParseResponse 200]\<rparr>"
  using abort_is_swallowed
      [where err = "\<lparr>error_name = Some (JStr ''AbortError''), error_result = None\<rparr>"
         and linkFetch = "\<lambda>u opt. Rejected \<lparr>error_name = Some (JStr ''AbortError''), error_result = None\<rparr>"
         and uri = "''/graphql''"
         and options = "\<lparr>opt_headers = [], opt_body = Some (Text ''{}'' :: unit request_body), opt_signal = True\<rparr>"
         and response = "200 :: nat" and parser = "\<lambda>c r. Inr JNull"]
    abort_is_swallowed
      [where err = "\<lparr>error_name = Some (JStr ''AbortError''), error_result = None\<rparr>"
         and linkFetch = "\<lambda>u opt. Resolved (200 :: nat)"
         and uri = "''/graphql''"
         and options = "\<lparr>opt_headers = [], opt_body = Some (Text ''{}'' :: unit request_body), opt_signal = True\<rparr>"
         and response = "200 :: nat"
         and parser = "\<lambda>c r. Inl \<lparr>error_name = Some (JStr ''AbortError''), error_result = None\<rparr>"]
  by simp

text \<open>
  C7. When \<^verbatim>\<open>fetch\<close> resolves and the response parser, called with the response already
  on the context, returns a result, the effects are in this order: the response is put
  on the context, the parser is called, \<^verbatim>\<open>next\<close> is emitted, \<^verbatim>\<open>complete\<close> is emitted.
  The context that the effects before \<^verbatim>\<open>next\<close> leave holds that response.
\<close>

theorem response_forwarded_before_next:
  assumes "parser (Some response) response = Inr result"
  shows "settle parser (Resolved response) context
           = \<lparr>raised = None, context_response = Some response,
              trace = [SetContext response, ParseResponse response, Next result, Complete]\<rparr>
       \<and> context_after [SetContext response, ParseResponse response] context = Some response"
  using assms by (simp add: settle_def preceded_by_def)

theorem response_forwarded_before_next_witness:
  "settle (\<lambda>c (r :: nat). if c = Some r then Inr (JObj [(''data'', JNum 1)]) else Inl \<lparr>error_name = None, error_result = None\<rparr>)
     (Resolved 200) None
     = (\<lparr>raised = None, context_response = Some 200,
         trace = [SetContext 200, ParseResponse 200, Next (JObj [(''data'', JNum 1)]), Complete]\<rparr> :: (unit, nat) run)
   \<and> context_after ([SetContext 200, ParseResponse 200] :: (unit, nat) effect list) None = Some 200"
  using response_forwarded_before_next
    [of "\<lambda>c (r :: nat). if c = Some r then Inr (JObj [(''data'', JNum 1)]) else Inl \<lparr>error_name = None, error_result = None\<rparr>"
        200 "JObj [(''data'', JNum 1)]" None]
  by simp

section \<open>The rewriter\<close>

text \<open>
  C1. The source computes the quoted text \<^verbatim>\<open>val\<close> for a string value and then
  substitutes the value itself: for the query \<^verbatim>\<open>{ user(name: $name) { id } }\<close> with the
  variables \<^verbatim>\<open>{name: "Bob"}\<close> the rewritten query has \<^verbatim>\<open>Bob\<close> without quotes.
\<close>

theorem string_value_not_quoted:
  "rewrite_query regexp_replace (JObj [(''query'', JStr ''{ user(name: $name) { id } }''),
                        (''variables'', JObj [(''name'', JStr ''Bob'')])])
     = Inr \<lparr>operationName = None, query = '' query {  user(name: Bob) { id }  } '',
            variables = JNull\<rparr>"
  by code_simp

text \<open>
  C3. For the query \<^verbatim>\<open>{ user(id: $id) { name } }\<close> with the variables \<^verbatim>\<open>{id: 5}\<close> the
  rewritten query is exactly \<^verbatim>\<open> query {  user(id: 5) { name }  } \<close>, and the body is the
  one \<^verbatim>\<open>JSON.parse\<close> returns for its serialization.
\<close>

theorem numeric_id_example:
  "rewrite_query regexp_replace (JObj [(''query'', JStr ''{ user(id: $id) { name } }''),
                        (''variables'', JObj [(''id'', JNum 5)])])
     = Inr \<lparr>operationName = None, query = '' query {  user(id: 5) { name }  } '',
            variables = JNull\<rparr>
   \<and> JSON_parse (serializeFetchParameter
         (JObj [(''query'', JStr ''{ user(id: $id) { name } }''),
                (''variables'', JObj [(''id'', JNum 5)])]))
       = Inr (JObj [(''query'', JStr ''{ user(id: $id) { name } }''),
                    (''variables'', JObj [(''id'', JNum 5)])])"
  by code_simp

text \<open>
  C8. Whenever the rewriter returns, which it does unless the code throws, whatever the
  keys and the regular-expression engine, the body it returns has \<^verbatim>\<open>variables\<close> null, its
  \<^verbatim>\<open>operationName\<close> is the \<^verbatim>\<open>operation\<close> property of the input, its query is wrapped in
  \<^verbatim>\<open> query { \<close> and \<^verbatim>\<open> } \<close>, and what is stringified has these properties and no other.
\<close>

theorem rewritten_body_shape:
  assumes "rewrite_query regexp_replace body = Inr out"
  shows "variables out = JNull
       \<and> operationName out = get_member body ''operation''
       \<and> (\<exists>raw. query out = '' query { '' @ raw @ '' } '')
       \<and> rewritten_json out
           = JObj ((case get_member body ''operation'' of None \<Rightarrow> [] | Some v \<Rightarrow> [(''operationName'', v)])
                   @ [(''query'', JStr (query out)), (''variables'', JNull)])"
  using assms
  by (auto simp: rewrite_query_def rewritten_json_def split: option.splits json.splits sum.splits)

theorem rewritten_body_shape_witness:
  "rewrite_query (\<lambda>source replacement subject. None) (JObj [(''operation'', JStr ''op''), (''operationName'', JStr ''User''),
       (''variables'', JObj [(''id'', JNum 5)]), (''query'', JStr ''{ user(id: $id) { name } }'')])
     = Inr \<lparr>operationName = Some (JStr ''op''), query = '' query {  user(id: 5) { name }  } '', variables = JNull\<rparr>
   \<and> variables \<lparr>operationName = Some (JStr ''op''), query = '' query {  user(id: 5) { name }  } '', variables = JNull\<rparr> = JNull
   \<and> rewritten_json \<lparr>operationName = Some (JStr ''op''), query = '' query {  user(id: 5) { name }  } '', variables = JNull\<rparr>
       = JObj [(''operationName'', JStr ''op''), (''query'', JStr '' query {  user(id: 5) { name }  } ''), (''variables'', JNull)]
   \<and> rewrite_query
        (\<lambda>source replacement subject.
          if source = [CHR 0x5C] @ ''$a.b'' \<and> replacement = ''7''
             \<and> subject = '' user(k: $a.b) { name } ''
          then Some '' user(k: 7) { name } '' else None)
        (JObj [(''operationName'', JStr ''User''), (''variables'', JObj [(''a.b'', JNum 7)]),
              (''query'', JStr ''{ user(k: $a.b) { name } }'')])
     = Inr \<lparr>operationName = None, query = '' query {  user(k: 7) { name }  } '', variables = JNull\<rparr>
   \<and> rewritten_json \<lparr>operationName = None, query = '' query {  user(k: 7) { name }  } '', variables = JNull\<rparr>
       = JObj [(''query'', JStr '' query {  user(k: 7) { name }  } ''), (''variables'', JNull)]"
proof -
  have run: "rewrite_query (\<lambda>source replacement subject. None) (JObj [(''operation'', JStr ''op''), (''operationName'', JStr ''User''),
       (''variables'', JObj [(''id'', JNum 5)]), (''query'', JStr ''{ user(id: $id) { name } }'')])
     = Inr \<lparr>operationName = Some (JStr ''op''), query = '' query {  user(id: 5) { name }  } '', variables = JNull\<rparr>"
    by code_simp
  have engine_run: "rewrite_query
        (\<lambda>source replacement subject.
          if source = [CHR 0x5C] @ ''$a.b'' \<and> replacement = ''7''
             \<and> subject = '' user(k: $a.b) { name } ''
          then Some '' user(k: 7) { name } '' else None)
        (JObj [(''operationName'', JStr ''User''), (''variables'', JObj [(''a.b'', JNum 7)]),
              (''query'', JStr ''{ user(k: $a.b) { name } }'')])
     = Inr \<lparr>operationName = None, query = '' query {  user(k: 7) { name }  } '', variables = JNull\<rparr>"
    by code_simp
  show ?thesis
    using rewritten_body_shape [OF run] rewritten_body_shape [OF engine_run] run engine_run
    by (simp add: get_member_def)
qed

text \<open>
  The rewriter returns whenever the query is a string, the variables are neither
  \<^verbatim>\<open>undefined\<close> nor \<^verbatim>\<open>null\<close>, and the \<^verbatim>\<open>RegExp\<close> constructor accepts every key that is
  not literal.
\<close>

lemma substitute_all_returns:
  assumes "\<forall>key \<in> set keys. literal_key key
             \<or> (\<forall>replacement subject.
                   regexp_replace ([CHR 0x5C, CHR ''$''] @ key) replacement subject \<noteq> None)"
  shows "\<exists>replaced. substitute_all regexp_replace vars keys rawQuery = Inr replaced"
  using assms
proof (induction keys arbitrary: rawQuery)
  case Nil
  then show ?case by simp
next
  case (Cons key keys)
  have "\<exists>replaced. substitute regexp_replace vars rawQuery key = Inr replaced"
  proof (cases "literal_key key")
    case True
    then show ?thesis by (simp add: substitute_def)
  next
    case False
    with Cons.prems obtain replaced where
      "regexp_replace ([CHR 0x5C, CHR ''$''] @ key) (to_string_opt (get_member_opt vars key)) rawQuery
         = Some replaced"
      by fastforce
    with False show ?thesis by (simp add: substitute_def)
  qed
  then obtain replaced where "substitute regexp_replace vars rawQuery key = Inr replaced" ..
  moreover have "\<exists>out. substitute_all regexp_replace vars keys replaced = Inr out"
    using Cons.IH Cons.prems by simp
  ultimately show ?case by simp
qed

lemma rewrite_query_returns:
  assumes "get_member body ''query'' = Some (JStr q)"
    and "get_member body ''variables'' = Some vars" and "vars \<noteq> JNull"
    and "\<forall>key \<in> set (map fst (own_entries vars)). literal_key key
           \<or> (\<forall>replacement subject.
                 regexp_replace ([CHR 0x5C, CHR ''$''] @ key) replacement subject \<noteq> None)"
  shows "\<exists>out. rewrite_query regexp_replace body = Inr out"
proof -
  obtain replaced where
    "substitute_all regexp_replace (Some vars) (map fst (own_entries vars)) (selection_set q)
       = Inr replaced"
    using substitute_all_returns [OF assms(4)] by blast
  with assms(1-3) show ?thesis
    by (simp add: rewrite_query_def object_keys_def)
qed

section \<open>The multipart body\<close>

lemma show_nat_small: "n < 10 \<Longrightarrow> show_nat n = [digit_char n]"
  by (subst show_nat.simps) simp

lemma show_nat_large: "\<not> n < 10 \<Longrightarrow> show_nat n = show_nat (n div 10) @ [digit_char (n mod 10)]"
  by (subst show_nat.simps) simp

lemma digit_cases: "d < (10::nat) \<Longrightarrow> d \<in> {0, 1, 2, 3, 4, 5, 6, 7, 8, 9}"
  by auto

lemma digit_value_digit_char: "d < 10 \<Longrightarrow> digit_value (digit_char d) = d"
  using digit_cases [of d] by (auto simp: digit_char_def digit_value_def)

lemma is_digit_digit_char: "is_digit (digit_char d)"
proof -
  have "d mod 10 \<in> {0, 1, 2, 3, 4, 5, 6, 7, 8, 9}" by (rule digit_cases) simp
  then show ?thesis by (auto simp: digit_char_def is_digit_def)
qed

lemma decimal_value_snoc: "decimal_value (s @ [c]) = 10 * decimal_value s + digit_value c"
  by (simp add: decimal_value_def)

lemma decimal_value_show_nat: "decimal_value (show_nat n) = n"
proof (induction n rule: show_nat.induct)
  case (1 n)
  show ?case
  proof (cases "n < 10")
    case True
    then show ?thesis
      by (simp add: show_nat_small decimal_value_def digit_value_digit_char)
  next
    case False
    then have "decimal_value (show_nat (n div 10)) = n div 10" using 1 by simp
    with False show ?thesis
      by (simp add: show_nat_large decimal_value_snoc digit_value_digit_char)
  qed
qed

lemma show_nat_digits: "c \<in> set (show_nat n) \<Longrightarrow> is_digit c"
proof (induction n arbitrary: c rule: show_nat.induct)
  case (1 n)
  show ?case
  proof (cases "n < 10")
    case True
    with 1(2) show ?thesis by (simp add: show_nat_small is_digit_digit_char)
  next
    case False
    with 1 show ?thesis by (auto simp: show_nat_large is_digit_digit_char)
  qed
qed

lemma show_nat_nonempty: "show_nat n \<noteq> []"
proof (cases "n < 10")
  case True
  then show ?thesis by (simp add: show_nat_small)
next
  case False
  then show ?thesis by (simp add: show_nat_large)
qed

lemma show_nat_inj: "show_nat m = show_nat n \<Longrightarrow> m = n"
  by (metis decimal_value_show_nat)

lemma array_index_show_nat:
  "array_index (show_nat n) = (if n < 4294967295 then Some n else None)"
  using show_nat_digits [of _ n]
  by (auto simp: array_index_def decimal_value_show_nat show_nat_nonempty)

text \<open>
  The property the \<^verbatim>\<open>reduce\<close> creates for the file of index \<open>n\<close> comes after those
  of the files before it.
\<close>

lemma put_prop_next:
  assumes "kvs = map (\<lambda>i. (show_nat i, g i)) [0..<n]"
  shows "put_prop kvs (show_nat n) v = kvs @ [(show_nat n, v)]"
proof -
  have fresh: "show_nat n \<notin> set (map fst kvs)"
    using assms by (auto simp: comp_def dest: show_nat_inj)
  show ?thesis
  proof (cases "n < 4294967295")
    case False
    then show ?thesis using fresh by (simp add: put_prop_def array_index_show_nat)
  next
    case True
    have "\<forall>kv \<in> set kvs. index_below n kv"
      using assms True by (auto simp: index_below_def array_index_show_nat)
    then have "takeWhile (index_below n) kvs = kvs" "dropWhile (index_below n) kvs = []"
      by (simp_all add: takeWhile_eq_all_conv)
    then show ?thesis using fresh True by (simp add: put_prop_def array_index_show_nat)
  qed
qed

lemma files_map_closed:
  "files_map files = map (\<lambda>(i, f). (show_nat i, JArr [JStr (path f)])) (zip [0..<length files] files)"
proof (induction files rule: rev_induct)
  case Nil
  then show ?case by (simp add: files_map_def)
next
  case (snoc f fs)
  let ?g = "\<lambda>i. JArr [JStr (path ((fs @ [f]) ! i))]"
  have shape: "map (\<lambda>(i, f). (show_nat i, JArr [JStr (path f)])) (zip [0..<length fs] fs)
          = map (\<lambda>i. (show_nat i, ?g i)) [0..<length fs]"
    by (rule nth_equalityI) (simp_all add: nth_append)
  have "files_map (fs @ [f])
          = put_prop (files_map fs) (show_nat (length fs)) (JArr [JStr (path f)])"
    by (simp add: files_map_def)
  also have "\<dots> = files_map fs @ [(show_nat (length fs), JArr [JStr (path f)])]"
    using snoc.IH shape by (intro put_prop_next [where g = ?g]) simp
  finally show ?case using snoc.IH by simp
qed

lemma append_files_closed:
  "append_files files form
     = form @ map (\<lambda>(i, f). FileField (show_nat i) (fileHandle f) (upload_name (fileHandle f)))
                (zip [0..<length files] files)"
proof (induction files rule: rev_induct)
  case Nil
  then show ?case by (simp add: append_files_def)
next
  case (snoc f fs)
  have "append_files (fs @ [f]) form
          = append_files fs form @ [FileField (show_nat (length fs)) (fileHandle f) (upload_name (fileHandle f))]"
    by (simp add: append_files_def)
  then show ?case using snoc.IH by simp
qed

text \<open>
  C4. When files were extracted, the options leave with the \<^verbatim>\<open>content-type\<close> header
  deleted and a \<^verbatim>\<open>FormData\<close> body of these entries, in this order: the payload under
  \<^verbatim>\<open>operations\<close>; under \<^verbatim>\<open>map\<close> the JSON text of the object that has, for each file in
  list order, its index counted from zero as key and the array of its path as value;
  then each file under its index, with its name.
\<close>

theorem multipart_body:
  assumes "files \<noteq> []"
  shows "set_body files payload options
           = options
               \<lparr>opt_headers := filter (\<lambda>h. fst h \<noteq> ''content-type'') (opt_headers options),
                opt_body := Some (FormData
                  ([Field ''operations'' payload,
                    Field ''map'' (JSON_stringify (JObj
                      (map (\<lambda>(i, f). (show_nat i, JArr [JStr (path f)])) (zip [0..<length files] files))))]
                   @ map (\<lambda>(i, f). FileField (show_nat i) (fileHandle f) (upload_name (fileHandle f)))
                       (zip [0..<length files] files)))\<rparr>"
  using assms by (simp add: set_body_def append_files_closed files_map_closed del: JSON_stringify.simps)

theorem multipart_body_witness:
  "set_body [\<lparr>path = ''variables.file'', fileHandle = \<lparr>upload_name = Some ''a.jpg'', upload_content = ()\<rparr>\<rparr>]
     ''PAYLOAD''
     \<lparr>opt_headers = [(''accept'', ''*/*''), (''content-type'', ''application/json'')],
      opt_body = None, opt_signal = False\<rparr>
   = \<lparr>opt_headers = [(''accept'', ''*/*'')],
      opt_body = Some (FormData
        [Field ''operations'' ''PAYLOAD'',
         Field ''map'' (''{'' @ [CHR 0x22] @ ''0'' @ [CHR 0x22] @ '':['' @ [CHR 0x22]
                        @ ''variables.file'' @ [CHR 0x22] @ '']}''),
         FileField ''0'' \<lparr>upload_name = Some ''a.jpg'', upload_content = ()\<rparr> (Some ''a.jpg'')]),
      opt_signal = False\<rparr>"
proof -
  have digits: "show_nat 0 = ''0''" by code_simp
  have quoted: "quote ''0'' = [CHR 0x22] @ ''0'' @ [CHR 0x22]"
    "quote ''variables.file'' = [CHR 0x22] @ ''variables.file'' @ [CHR 0x22]"
    by code_simp+
  show ?thesis
    using multipart_body
      [of "[\<lparr>path = ''variables.file'', fileHandle = \<lparr>upload_name = Some ''a.jpg'', upload_content = ()\<rparr>\<rparr>]"
          "''PAYLOAD''"
          "\<lparr>opt_headers = [(''accept'', ''*/*''), (''content-type'', ''application/json'')],
            opt_body = None, opt_signal = False\<rparr>"]
    by (simp add: digits quoted)
qed

section \<open>The subscription\<close>

lemma on_rejected_cases:
  "on_rejected err = [] \<or> on_rejected err = [Error err]
     \<or> (\<exists>v. on_rejected err = [Next v, Error err])"
  by (cases "error_result err") (simp_all add: on_rejected_def)

lemma on_rejected_effects:
  fixes e :: "('b, 'r) effect"
  assumes "e \<in> set (on_rejected err)"
  shows "(\<exists>v. e = Next v) \<or> e = Error err"
proof -
  have "on_rejected err = ([] :: ('b, 'r) effect list)
      \<or> on_rejected err = ([Error err] :: ('b, 'r) effect list)
      \<or> (\<exists>v. on_rejected err = ([Next v, Error err] :: ('b, 'r) effect list))"
    by (rule on_rejected_cases)
  with assms show ?thesis by auto
qed

lemma settle_no_rewrite: "Rewrite \<notin> set (trace (settle parser outcome context))"
proof (cases outcome)
  case (Rejected err)
  then show ?thesis
    by (auto simp: settle_def dest: on_rejected_effects)
next
  case (Resolved response)
  show ?thesis
  proof (cases "parser (Some response) response")
    case (Inl err)
    with Resolved show ?thesis
      by (auto simp: settle_def preceded_by_def dest: on_rejected_effects)
  next
    case (Inr result)
    with Resolved show ?thesis by (simp add: settle_def preceded_by_def)
  qed
qed

lemma signal_keeps_body:
  "opt_body (if abortable then options\<lparr>opt_signal := True\<rparr> else options) = opt_body options"
  by simp

lemma parse_form_data: "JSON_parse ''[object FormData]'' = Inl SyntaxError"
  by code_simp

lemma subscribe_form_data:
  assumes "opt_body options = Some (FormData entries)"
  shows "subscribe regexp_replace linkFetch parser abortable uri options context
           = \<lparr>raised = Some SyntaxError, context_response = context, trace = [ParseBody]\<rparr>"
  using assms
  by (simp add: subscribe_def Let_def body_text_def parse_form_data throw_def preceded_by_def)

lemma set_body_files:
  "files \<noteq> [] \<Longrightarrow> \<exists>entries. opt_body (set_body files payload options) = Some (FormData entries)"
  by (simp add: set_body_def)

lemma set_body_no_files:
  "set_body [] payload options = options\<lparr>opt_body := Some (Text payload)\<rparr>"
  by (simp add: set_body_def)

lemma subscribe_text:
  assumes "opt_body options = Some (Text text)" and "JSON_parse text = Inr parsed"
    and "parsed \<noteq> JNull"
  shows "subscribe regexp_replace linkFetch parser abortable uri options context
           = (if truthy (get_member parsed ''query'')
              then preceded_by [ParseBody, Rewrite]
                     (case rewrite_query regexp_replace parsed of
                        Inl e \<Rightarrow> throw e context
                      | Inr rewritten \<Rightarrow>
                          preceded_by [Stringify]
                            (transport linkFetch parser uri
                               ((if abortable then options\<lparr>opt_signal := True\<rparr> else options)
                                  \<lparr>opt_body := Some (Text (JSON_stringify (rewritten_json rewritten)))\<rparr>)
                               context))
              else preceded_by [ParseBody]
                     (transport linkFetch parser uri
                        (if abortable then options\<lparr>opt_signal := True\<rparr> else options) context))"
  using assms
  by (simp add: subscribe_def Let_def body_text_def preceded_by_def)

lemma subscribe_starts_with_parse:
  "\<exists>rest. trace (subscribe regexp_replace linkFetch parser abortable uri options context) = ParseBody # rest"
  by (simp add: subscribe_def Let_def preceded_by_def)

lemma subscribe_rewrite_only_if_query:
  assumes "Rewrite \<in> set (trace (subscribe regexp_replace linkFetch parser abortable uri options context))"
  shows "\<exists>parsed. JSON_parse (body_text (opt_body options)) = Inr parsed
           \<and> truthy (get_member parsed ''query'')"
proof (cases "JSON_parse (body_text (opt_body options))")
  case (Inl e)
  with assms show ?thesis
    by (simp add: subscribe_def Let_def preceded_by_def throw_def signal_keeps_body)
next
  case (Inr parsed)
  show ?thesis
  proof (cases "truthy (get_member parsed ''query'')")
    case True
    with Inr show ?thesis by simp
  next
    case False
    show ?thesis
    proof (cases "parsed = JNull")
      case True
      with assms Inr show ?thesis
        by (simp add: subscribe_def Let_def preceded_by_def throw_def signal_keeps_body)
    next
      case notnull: False
      with assms Inr False show ?thesis
        by (simp add: subscribe_def Let_def preceded_by_def throw_def transport_def
            signal_keeps_body settle_no_rewrite)
    qed
  qed
qed

text \<open>
  C9. When at least one file was extracted, the run ends in the \<^verbatim>\<open>SyntaxError\<close> of
  \<^verbatim>\<open>JSON.parse\<close> applied to the \<^verbatim>\<open>FormData\<close> body: the serializer and the multipart
  encoder have run, \<^verbatim>\<open>fetch\<close> is never called and the observer gets nothing.
\<close>

theorem upload_never_reaches_fetch:
  assumes "files \<noteq> []"
  shows "execute regexp_replace linkFetch parser abortable uri options body files context
           = \<lparr>raised = Some SyntaxError, context_response = context,
              trace = [Serialize, Multipart, ParseBody]\<rparr>"
proof -
  obtain entries where
    "opt_body (set_body files (serializeFetchParameter body) options) = Some (FormData entries)"
    using set_body_files [OF assms] by blast
  then show ?thesis
    using assms by (simp add: execute_def Let_def subscribe_form_data preceded_by_def)
qed

theorem upload_never_reaches_fetch_witness:
  "execute (\<lambda>source replacement subject. None) (\<lambda>u opt. Resolved (200 :: nat)) (\<lambda>c r. Inr JNull) True ''/graphql''
     \<lparr>opt_headers = [(''content-type'', ''application/json'')], opt_body = None, opt_signal = False\<rparr>
     (JObj [(''operationName'', JStr ''Upload''), (''variables'', JObj [(''file'', JNull)]),
            (''query'', JStr ''mutation Upload($file: Upload!) { upload(file: $file) { id } }'')])
     [\<lparr>path = ''variables.file'', fileHandle = \<lparr>upload_name = Some ''a.jpg'', upload_content = ()\<rparr>\<rparr>]
     None
   = \<lparr>raised = Some SyntaxError, context_response = None, trace = [Serialize, Multipart, ParseBody]\<rparr>"
  using upload_never_reaches_fetch
    [of "[\<lparr>path = ''variables.file'', fileHandle = \<lparr>upload_name = Some ''a.jpg'', upload_content = ()\<rparr>\<rparr>]"]
  by simp

text \<open>
  C10. When the serialized body parses to a body with a truthy \<^verbatim>\<open>query\<close> whose
  \<^verbatim>\<open>variables\<close> is absent or null, the subscriber function throws a \<^verbatim>\<open>TypeError\<close> in
  the rewriting branch, before any call of \<^verbatim>\<open>fetch\<close>: for every request body that is
  this text, and so for every operation without files that serializes to it.
\<close>

theorem missing_variables_type_error:
  assumes "JSON_parse payload = Inr parsed"
    and "truthy (get_member parsed ''query'')"
    and "get_member parsed ''variables'' = None \<or> get_member parsed ''variables'' = Some JNull"
  shows "(opt_body options = Some (Text payload) \<longrightarrow>
            subscribe regexp_replace linkFetch parser abortable uri options context
              = \<lparr>raised = Some TypeError, context_response = context,
                 trace = [ParseBody, Rewrite]\<rparr>)
       \<and> (serializeFetchParameter body = payload \<longrightarrow>
            execute regexp_replace linkFetch parser abortable uri options body [] context
              = \<lparr>raised = Some TypeError, context_response = context,
                 trace = [Serialize, ParseBody, Rewrite]\<rparr>)"
proof -
  have thrown: "rewrite_query regexp_replace parsed = Inl TypeError"
    using assms(3) by (auto simp: rewrite_query_def object_keys_def split: option.splits json.splits)
  have not_null: "parsed \<noteq> JNull"
    using assms(2) by (auto simp: get_member_def)
  have "subscribe regexp_replace linkFetch parser abortable uri opts context
          = \<lparr>raised = Some TypeError, context_response = context, trace = [ParseBody, Rewrite]\<rparr>"
    if "opt_body opts = Some (Text payload)" for opts
    using that assms(1,2) thrown not_null
    by (simp add: subscribe_text throw_def preceded_by_def)
  then show ?thesis
    by (auto simp: execute_def Let_def set_body_def preceded_by_def)
qed

theorem missing_variables_type_error_witness:
  "subscribe (\<lambda>source replacement subject. None) (\<lambda>u opt. Resolved (200 :: nat)) (\<lambda>c r. Inr JNull) False ''/graphql''
     \<lparr>opt_headers = [(''content-type'', ''application/json'')],
      opt_body = Some (Text (serializeFetchParameter
        (JObj [(''operationName'', JStr ''Me''), (''query'', JStr ''{ me { id } }'')])) :: unit request_body),
      opt_signal = False\<rparr>
     None
     = \<lparr>raised = Some TypeError, context_response = None, trace = [ParseBody, Rewrite]\<rparr>
   \<and> execute (\<lambda>source replacement subject. None) (\<lambda>u opt. Resolved (200 :: nat)) (\<lambda>c r. Inr JNull) False ''/graphql''
     \<lparr>opt_headers = [(''content-type'', ''application/json'')], opt_body = None, opt_signal = False\<rparr>
     (JObj [(''operationName'', JStr ''Me''), (''query'', JStr ''{ me { id } }'')])
     ([] :: unit extracted_file list) None
     = \<lparr>raised = Some TypeError, context_response = None, trace = [Serialize, ParseBody, Rewrite]\<rparr>"
proof -
  have parsed: "JSON_parse (serializeFetchParameter
        (JObj [(''operationName'', JStr ''Me''), (''query'', JStr ''{ me { id } }'')]))
      = Inr (JObj [(''operationName'', JStr ''Me''), (''query'', JStr ''{ me { id } }'')])"
    by code_simp
  have query: "truthy (get_member
      (JObj [(''operationName'', JStr ''Me''), (''query'', JStr ''{ me { id } }'')]) ''query'')"
    by (simp add: get_member_def)
  have missing: "get_member
      (JObj [(''operationName'', JStr ''Me''), (''query'', JStr ''{ me { id } }'')]) ''variables'' = None
    \<or> get_member
      (JObj [(''operationName'', JStr ''Me''), (''query'', JStr ''{ me { id } }'')]) ''variables'' = Some JNull"
    by (simp add: get_member_def)
  show ?thesis
    using missing_variables_type_error
        [OF parsed query missing,
         where options = "\<lparr>opt_headers = [(''content-type'', ''application/json'')],
             opt_body = Some (Text (serializeFetchParameter
               (JObj [(''operationName'', JStr ''Me''), (''query'', JStr ''{ me { id } }'')])) :: unit request_body),
             opt_signal = False\<rparr>"
           and linkFetch = "\<lambda>u opt. Resolved (200 :: nat)" and parser = "\<lambda>c r. Inr JNull"
           and abortable = False and uri = "''/graphql''"]
      missing_variables_type_error
        [OF parsed query missing,
         where options = "\<lparr>opt_headers = [(''content-type'', ''application/json'')],
             opt_body = None :: unit request_body option, opt_signal = False\<rparr>"
           and body = "JObj [(''operationName'', JStr ''Me''), (''query'', JStr ''{ me { id } }'')]"
           and linkFetch = "\<lambda>u opt. Resolved (200 :: nat)" and parser = "\<lambda>c r. Inr JNull"
           and abortable = False and uri = "''/graphql''"]
    by simp
qed

section \<open>The order of the pipeline\<close>

lemma execute_unfold:
  "execute regexp_replace linkFetch parser abortable uri options body files context
     = preceded_by (Serialize # (if files \<noteq> [] then [Multipart] else []))
         (subscribe regexp_replace linkFetch parser abortable uri
            (set_body files (serializeFetchParameter body) options) context)"
  by (simp add: execute_def Let_def)

lemma execute_without_files:
  assumes "JSON_parse (serializeFetchParameter body) = Inr parsed" and "parsed \<noteq> JNull"
  shows "execute regexp_replace linkFetch parser abortable uri options body [] context
     = preceded_by [Serialize]
         (if truthy (get_member parsed ''query'')
          then preceded_by [ParseBody, Rewrite]
                 (case rewrite_query regexp_replace parsed of
                    Inl e \<Rightarrow> throw e context
                  | Inr rewritten \<Rightarrow>
                      preceded_by [Stringify]
                        (transport linkFetch parser uri
                           ((if abortable then options\<lparr>opt_signal := True\<rparr> else options)
                              \<lparr>opt_body := Some (Text (JSON_stringify (rewritten_json rewritten)))\<rparr>)
                           context))
          else preceded_by [ParseBody]
                 (transport linkFetch parser uri
                    ((if abortable then options\<lparr>opt_signal := True\<rparr> else options)
                       \<lparr>opt_body := Some (Text (serializeFetchParameter body))\<rparr>)
                    context))"
proof -
  let ?sent = "options\<lparr>opt_body := Some (Text (serializeFetchParameter body))\<rparr>"
  have sent: "opt_body ?sent = Some (Text (serializeFetchParameter body))"
    by simp
  have signal: "(if abortable then ?sent\<lparr>opt_signal := True\<rparr> else ?sent)
      = (if abortable then options\<lparr>opt_signal := True\<rparr> else options)
          \<lparr>opt_body := Some (Text (serializeFetchParameter body))\<rparr>"
    by (cases options) simp
  have subscribed: "subscribe regexp_replace linkFetch parser abortable uri ?sent context
      = (if truthy (get_member parsed ''query'')
         then preceded_by [ParseBody, Rewrite]
                (case rewrite_query regexp_replace parsed of
                   Inl e \<Rightarrow> throw e context
                 | Inr rewritten \<Rightarrow>
                     preceded_by [Stringify]
                       (transport linkFetch parser uri
                          ((if abortable then ?sent\<lparr>opt_signal := True\<rparr> else ?sent)
                             \<lparr>opt_body := Some (Text (JSON_stringify (rewritten_json rewritten)))\<rparr>)
                          context))
         else preceded_by [ParseBody]
                (transport linkFetch parser uri
                   (if abortable then ?sent\<lparr>opt_signal := True\<rparr> else ?sent) context))"
    by (rule subscribe_text [OF sent assms])
  show ?thesis
    unfolding execute_unfold set_body_no_files subscribed signal
    by (cases "rewrite_query regexp_replace parsed") simp_all
qed

text \<open>
  C2, as the code has it. Every run starts with the payload serializer, then the
  multipart encoder when files were extracted, then \<^verbatim>\<open>JSON.parse\<close> of the request body.
  The rewriting branch is entered only when there are no files and the serialized
  payload parses to a body with a truthy \<^verbatim>\<open>query\<close>. Without files, when the payload
  parses: a body that is \<^verbatim>\<open>null\<close> ends the run in the \<^verbatim>\<open>TypeError\<close> of reading its
  \<^verbatim>\<open>query\<close>; a body that is not \<^verbatim>\<open>null\<close> and has no truthy \<^verbatim>\<open>query\<close> goes to \<^verbatim>\<open>fetch\<close>
  as serialized, with no rewrite; a body with a truthy \<^verbatim>\<open>query\<close> is rewritten after
  the serializer, and when the rewriter returns its result is stringified and that text
  goes to \<^verbatim>\<open>fetch\<close>, while when the rewriter throws the run ends there, with no
  \<^verbatim>\<open>fetch\<close>. This holds for every regular-expression engine.
\<close>

theorem serializer_first_rewrite_on_query:
  "(\<exists>rest. trace (execute regexp_replace linkFetch parser abortable uri options body files context)
             = Serialize # (if files \<noteq> [] then [Multipart] else []) @ ParseBody # rest)
   \<and> (Rewrite \<in> set (trace (execute regexp_replace linkFetch parser abortable uri options body files context))
        \<longrightarrow> files = []
            \<and> (\<exists>parsed. JSON_parse (serializeFetchParameter body) = Inr parsed
                   \<and> truthy (get_member parsed ''query'')))
   \<and> (files = [] \<and> JSON_parse (serializeFetchParameter body) = Inr parsed \<and> parsed \<noteq> JNull
          \<and> \<not> truthy (get_member parsed ''query'')
        \<longrightarrow> trace (execute regexp_replace linkFetch parser abortable uri options body files context)
            = [Serialize, ParseBody,
               Fetch uri ((if abortable then options\<lparr>opt_signal := True\<rparr> else options)
                            \<lparr>opt_body := Some (Text (serializeFetchParameter body))\<rparr>)]
              @ trace (settle parser
                  (linkFetch uri ((if abortable then options\<lparr>opt_signal := True\<rparr> else options)
                            \<lparr>opt_body := Some (Text (serializeFetchParameter body))\<rparr>))
                  context))
   \<and> (files = [] \<and> JSON_parse (serializeFetchParameter body) = Inr parsed
          \<and> truthy (get_member parsed ''query'') \<and> rewrite_query regexp_replace parsed = Inr rewritten
        \<longrightarrow> trace (execute regexp_replace linkFetch parser abortable uri options body files context)
            = [Serialize, ParseBody, Rewrite, Stringify,
               Fetch uri ((if abortable then options\<lparr>opt_signal := True\<rparr> else options)
                            \<lparr>opt_body := Some (Text (JSON_stringify (rewritten_json rewritten)))\<rparr>)]
              @ trace (settle parser
                  (linkFetch uri ((if abortable then options\<lparr>opt_signal := True\<rparr> else options)
                            \<lparr>opt_body := Some (Text (JSON_stringify (rewritten_json rewritten)))\<rparr>))
                  context))
   \<and> (files = [] \<and> JSON_parse (serializeFetchParameter body) = Inr parsed
          \<and> truthy (get_member parsed ''query'') \<and> rewrite_query regexp_replace parsed = Inl e
        \<longrightarrow> execute regexp_replace linkFetch parser abortable uri options body files context
            = \<lparr>raised = Some e, context_response = context,
               trace = [Serialize, ParseBody, Rewrite]\<rparr>)
   \<and> (files = [] \<and> JSON_parse (serializeFetchParameter body) = Inr JNull
        \<longrightarrow> execute regexp_replace linkFetch parser abortable uri options body files context
            = \<lparr>raised = Some TypeError, context_response = context,
               trace = [Serialize, ParseBody]\<rparr>)"
  (is "?first \<and> ?only_if \<and> ?plain \<and> ?rewritten \<and> ?thrown \<and> ?null")
proof (intro conjI)
  let ?payload = "serializeFetchParameter body"
  let ?options = "set_body files ?payload options"
  obtain rest where
    "trace (subscribe regexp_replace linkFetch parser abortable uri ?options context) = ParseBody # rest"
    using subscribe_starts_with_parse by blast
  then show ?first
    by (simp add: execute_unfold preceded_by_def)
  show ?only_if
  proof
    assume "Rewrite \<in> set (trace (execute regexp_replace linkFetch parser abortable uri options body files context))"
    then have "Rewrite \<in> set (trace (subscribe regexp_replace linkFetch parser abortable uri ?options context))"
      by (simp add: execute_unfold preceded_by_def split: if_splits)
    then obtain parsed where parsed: "JSON_parse (body_text (opt_body ?options)) = Inr parsed"
        and query: "truthy (get_member parsed ''query'')"
      using subscribe_rewrite_only_if_query by blast
    have no_files: "files = []"
    proof (rule ccontr)
      assume "files \<noteq> []"
      then obtain entries where "opt_body ?options = Some (FormData entries)"
        using set_body_files by blast
      with parsed show False by (simp add: body_text_def parse_form_data)
    qed
    with parsed have "JSON_parse ?payload = Inr parsed"
      by (simp add: set_body_no_files body_text_def)
    with no_files query
    show "files = [] \<and> (\<exists>parsed. JSON_parse ?payload = Inr parsed \<and> truthy (get_member parsed ''query''))"
      by blast
  qed
  show ?plain
    by (auto simp: execute_without_files preceded_by_def transport_def)
  show ?rewritten
  proof (intro impI, elim conjE)
    assume "files = []" and parsed: "JSON_parse ?payload = Inr parsed"
      and query: "truthy (get_member parsed ''query'')"
      and rewritten: "rewrite_query regexp_replace parsed = Inr rewritten"
    from query have "parsed \<noteq> JNull" by (auto simp: get_member_def)
    with \<open>files = []\<close> parsed query rewritten
    show "trace (execute regexp_replace linkFetch parser abortable uri options body files context)
            = [Serialize, ParseBody, Rewrite, Stringify,
               Fetch uri ((if abortable then options\<lparr>opt_signal := True\<rparr> else options)
                            \<lparr>opt_body := Some (Text (JSON_stringify (rewritten_json rewritten)))\<rparr>)]
              @ trace (settle parser
                  (linkFetch uri ((if abortable then options\<lparr>opt_signal := True\<rparr> else options)
                            \<lparr>opt_body := Some (Text (JSON_stringify (rewritten_json rewritten)))\<rparr>))
                  context)"
      by (simp add: execute_without_files preceded_by_def transport_def)
  qed
  show ?thrown
  proof (intro impI, elim conjE)
    assume "files = []" and parsed: "JSON_parse ?payload = Inr parsed"
      and query: "truthy (get_member parsed ''query'')"
      and thrown: "rewrite_query regexp_replace parsed = Inl e"
    from query have "parsed \<noteq> JNull" by (auto simp: get_member_def)
    with \<open>files = []\<close> parsed query thrown
    show "execute regexp_replace linkFetch parser abortable uri options body files context
            = \<lparr>raised = Some e, context_response = context,
               trace = [Serialize, ParseBody, Rewrite]\<rparr>"
      by (simp add: execute_without_files preceded_by_def throw_def)
  qed
  show ?null
    by (simp add: execute_unfold set_body_no_files subscribe_def Let_def body_text_def
        throw_def preceded_by_def)
qed

theorem serializer_first_rewrite_on_query_witness:
  "trace (execute (\<lambda>source replacement subject. None) (\<lambda>u opt. Resolved (200 :: nat)) (\<lambda>c r. Inr JNull) False ''/graphql''
        \<lparr>opt_headers = [(''content-type'', ''application/json'')], opt_body = None, opt_signal = False\<rparr>
        (JObj [(''operationName'', JStr ''User''), (''variables'', JObj [(''id'', JNum 5)]), (''query'', JStr ''{ user(id: $id) { name } }'')]) ([] :: unit extracted_file list) None)
     = [Serialize, ParseBody, Rewrite, Stringify,
        Fetch ''/graphql''
          \<lparr>opt_headers = [(''content-type'', ''application/json'')],
             opt_body = Some (Text (JSON_stringify (JObj [(''query'', JStr '' query {  user(id: 5) { name }  } ''), (''variables'', JNull)]))),
             opt_signal = False\<rparr>,
        SetContext 200, ParseResponse 200, Next JNull, Complete]
   \<and> trace (execute (\<lambda>source replacement subject. None) (\<lambda>u opt. Resolved (200 :: nat)) (\<lambda>c r. Inr JNull) False ''/graphql''
        \<lparr>opt_headers = [(''content-type'', ''application/json'')], opt_body = None, opt_signal = False\<rparr>
        (JObj [(''operationName'', JStr ''User''), (''variables'', JObj [(''id'', JNum 5)])]) ([] :: unit extracted_file list) None)
     = [Serialize, ParseBody,
        Fetch ''/graphql''
          \<lparr>opt_headers = [(''content-type'', ''application/json'')],
             opt_body = Some (Text (serializeFetchParameter (JObj [(''operationName'', JStr ''User''), (''variables'', JObj [(''id'', JNum 5)])]))),
             opt_signal = False\<rparr>,
        SetContext 200, ParseResponse 200, Next JNull, Complete]
   \<and> execute (\<lambda>source replacement subject. None) (\<lambda>u opt. Resolved (200 :: nat)) (\<lambda>c r. Inr JNull) False ''/graphql''
        \<lparr>opt_headers = [(''content-type'', ''application/json'')], opt_body = None, opt_signal = False\<rparr>
        (JObj [(''operationName'', JStr ''User''), (''variables'', JObj [(''a('', JNum 5)]), (''query'', JStr ''{ user(id: $a() { name } }'')]) ([] :: unit extracted_file list) None
     = \<lparr>raised = Some SyntaxError, context_response = None, trace = [Serialize, ParseBody, Rewrite]\<rparr>
   \<and> execute (\<lambda>source replacement subject. None) (\<lambda>u opt. Resolved (200 :: nat)) (\<lambda>c r. Inr JNull) False ''/graphql''
        \<lparr>opt_headers = [(''content-type'', ''application/json'')], opt_body = None, opt_signal = False\<rparr>
        JNull ([] :: unit extracted_file list) None
     = \<lparr>raised = Some TypeError, context_response = None, trace = [Serialize, ParseBody]\<rparr>"
proof -
  have parsed_query: "JSON_parse (serializeFetchParameter (JObj [(''operationName'', JStr ''User''), (''variables'', JObj [(''id'', JNum 5)]), (''query'', JStr ''{ user(id: $id) { name } }'')]))
      = Inr (JObj [(''operationName'', JStr ''User''), (''variables'', JObj [(''id'', JNum 5)]), (''query'', JStr ''{ user(id: $id) { name } }'')])"
    by code_simp
  have rewritten: "rewrite_query (\<lambda>source replacement subject. None) (JObj [(''operationName'', JStr ''User''), (''variables'', JObj [(''id'', JNum 5)]), (''query'', JStr ''{ user(id: $id) { name } }'')])
      = Inr \<lparr>operationName = None, query = '' query {  user(id: 5) { name }  } '', variables = JNull\<rparr>"
    by code_simp
  have parsed_plain: "JSON_parse (serializeFetchParameter (JObj [(''operationName'', JStr ''User''), (''variables'', JObj [(''id'', JNum 5)])]))
      = Inr (JObj [(''operationName'', JStr ''User''), (''variables'', JObj [(''id'', JNum 5)])])"
    by code_simp
  have parsed_bad: "JSON_parse (serializeFetchParameter (JObj [(''operationName'', JStr ''User''), (''variables'', JObj [(''a('', JNum 5)]), (''query'', JStr ''{ user(id: $a() { name } }'')]))
      = Inr (JObj [(''operationName'', JStr ''User''), (''variables'', JObj [(''a('', JNum 5)]), (''query'', JStr ''{ user(id: $a() { name } }'')])"
    by code_simp
  have thrown: "rewrite_query (\<lambda>source replacement subject. None) (JObj [(''operationName'', JStr ''User''), (''variables'', JObj [(''a('', JNum 5)]), (''query'', JStr ''{ user(id: $a() { name } }'')])
      = Inl SyntaxError"
    by code_simp
  have parsed_null: "JSON_parse (serializeFetchParameter JNull) = Inr JNull"
    by code_simp
  show ?thesis
    using serializer_first_rewrite_on_query
        [where regexp_replace = "(\<lambda>source replacement subject. None)"
           and linkFetch = "\<lambda>u opt. Resolved (200 :: nat)" and parser = "\<lambda>c r. Inr JNull"
           and abortable = False and uri = "''/graphql''"
           and options = "\<lparr>opt_headers = [(''content-type'', ''application/json'')], opt_body = None, opt_signal = False\<rparr>"
           and body = "(JObj [(''operationName'', JStr ''User''), (''variables'', JObj [(''id'', JNum 5)]), (''query'', JStr ''{ user(id: $id) { name } }'')])"
           and files = "[] :: unit extracted_file list"
           and parsed = "(JObj [(''operationName'', JStr ''User''), (''variables'', JObj [(''id'', JNum 5)]), (''query'', JStr ''{ user(id: $id) { name } }'')])"
           and rewritten = "\<lparr>operationName = None, query = '' query {  user(id: 5) { name }  } '', variables = JNull\<rparr>"]
      serializer_first_rewrite_on_query
        [where regexp_replace = "(\<lambda>source replacement subject. None)"
           and linkFetch = "\<lambda>u opt. Resolved (200 :: nat)" and parser = "\<lambda>c r. Inr JNull"
           and abortable = False and uri = "''/graphql''"
           and options = "\<lparr>opt_headers = [(''content-type'', ''application/json'')], opt_body = None, opt_signal = False\<rparr>"
           and body = "(JObj [(''operationName'', JStr ''User''), (''variables'', JObj [(''id'', JNum 5)])])"
           and files = "[] :: unit extracted_file list"
           and parsed = "(JObj [(''operationName'', JStr ''User''), (''variables'', JObj [(''id'', JNum 5)])])"]
      serializer_first_rewrite_on_query
        [where regexp_replace = "(\<lambda>source replacement subject. None)"
           and linkFetch = "\<lambda>u opt. Resolved (200 :: nat)" and parser = "\<lambda>c r. Inr JNull"
           and abortable = False and uri = "''/graphql''"
           and options = "\<lparr>opt_headers = [(''content-type'', ''application/json'')], opt_body = None, opt_signal = False\<rparr>"
           and body = "(JObj [(''operationName'', JStr ''User''), (''variables'', JObj [(''a('', JNum 5)]), (''query'', JStr ''{ user(id: $a() { name } }'')])"
           and files = "[] :: unit extracted_file list"
           and parsed = "(JObj [(''operationName'', JStr ''User''), (''variables'', JObj [(''a('', JNum 5)]), (''query'', JStr ''{ user(id: $a() { name } }'')])"
           and e = SyntaxError]
      serializer_first_rewrite_on_query
        [where regexp_replace = "(\<lambda>source replacement subject. None)"
           and linkFetch = "\<lambda>u opt. Resolved (200 :: nat)" and parser = "\<lambda>c r. Inr JNull"
           and abortable = False and uri = "''/graphql''"
           and options = "\<lparr>opt_headers = [(''content-type'', ''application/json'')], opt_body = None, opt_signal = False\<rparr>"
           and body = "JNull"
           and files = "[] :: unit extracted_file list"]
    by (simp add: parsed_query rewritten parsed_plain parsed_bad thrown parsed_null
        get_member_def rewritten_json_def settle_def preceded_by_def)
qed

text \<open>
  C2, as the specification states it, fails: a body sent without its query
  (\<^verbatim>\<open>includeQuery\<close> off) reaches \<^verbatim>\<open>fetch\<close> as serialized, and the rewrite never runs.
\<close>

theorem rewrite_skipped_without_query:
  "trace (execute (\<lambda>source replacement subject. None) (\<lambda>u opt. Resolved (200 :: nat)) (\<lambda>c r. Inr JNull) False ''/graphql''
        \<lparr>opt_headers = [(''content-type'', ''application/json'')], opt_body = None, opt_signal = False\<rparr>
        (JObj [(''operationName'', JStr ''User''), (''variables'', JObj [(''id'', JNum 5)])]) ([] :: unit extracted_file list) None)
     = [Serialize, ParseBody,
        Fetch ''/graphql''
          \<lparr>opt_headers = [(''content-type'', ''application/json'')],
             opt_body = Some (Text (serializeFetchParameter (JObj [(''operationName'', JStr ''User''), (''variables'', JObj [(''id'', JNum 5)])]))),
             opt_signal = False\<rparr>,
        SetContext 200, ParseResponse 200, Next JNull, Complete]
   \<and> Rewrite \<notin> set (trace (execute (\<lambda>source replacement subject. None) (\<lambda>u opt. Resolved (200 :: nat)) (\<lambda>c r. Inr JNull) False ''/graphql''
        \<lparr>opt_headers = [(''content-type'', ''application/json'')], opt_body = None, opt_signal = False\<rparr>
        (JObj [(''operationName'', JStr ''User''), (''variables'', JObj [(''id'', JNum 5)])]) ([] :: unit extracted_file list) None))"
proof -
  have parsed: "JSON_parse (serializeFetchParameter (JObj [(''operationName'', JStr ''User''), (''variables'', JObj [(''id'', JNum 5)])]))
      = Inr (JObj [(''operationName'', JStr ''User''), (''variables'', JObj [(''id'', JNum 5)])])"
    by code_simp
  show ?thesis
    by (simp add: execute_without_files [OF parsed] get_member_def transport_def settle_def
        preceded_by_def)
qed

end
